theory Spec2Isabelle
  imports Main
begin

section \<open>Data model (models/Product.js, models/Cart.js, models/Order.js, models/Payment.js)\<close>

text \<open>
  The order pipeline of routes/orders (checkout, pay, the expiration sweep) and the admin
  status update, over the four Mongoose models they touch.

  JavaScript numbers that count units and milliseconds are modelled as unbounded
  integers. Prices and totals are integers as well: the code adds and multiplies them as
  IEEE doubles, whose rounding on fractional prices the model does not follow, and no
  statement below depends on a computed total. Object ids are natural numbers; an
  order's id is its position in the orders collection, which only ever grows. Fields the
  routes never read (timestamps, category, description) are left out.

  Saving a new document runs the schema's validators first and its pre-save hooks after
  them, as Mongoose does. Documents already stored satisfy their schema, so saving a
  change of status passes validation. A database operation either takes effect or is
  rejected for carrying a session on a server without transaction support; other
  failures of the database or of Redis, and the unique indexes on order numbers and
  transaction ids, are not modelled.
\<close>

datatype order_status = PENDING_PAYMENT | PAID | SHIPPED | DELIVERED | CANCELLED

datatype payment_status = SUCCESS | FAILED | PENDING

datatype payment_method = CREDIT_CARD | DEBIT_CARD | PAYPAL | BANK_TRANSFER

record product =
  name :: string
  price :: int
  stock :: int
  reservedStock :: int
  isActive :: bool

text \<open>The virtual getter \<open>availableStock\<close> of the product schema.\<close>

definition availableStock :: "product \<Rightarrow> int" where
  "availableStock p = stock p - reservedStock p"

record cart_item =
  ci_productId :: nat
  ci_quantity :: int

record cart =
  cart_items :: "cart_item list"
  totalItems :: int
  cart_totalAmount :: int

record order_item =
  oi_productId :: nat
  oi_quantity :: int
  priceAtPurchase :: int
  productName :: string

record address =
  street :: string
  city :: string
  state :: string
  zipCode :: string
  country :: string

record order =
  userId :: nat
  orderNumber :: string
  items :: "order_item list"
  totalAmount :: int
  status :: order_status
  shippingAddress :: address
  paymentMethod :: payment_method
  order_notes :: "string option"
  expiresAt :: int

record payment =
  pay_orderId :: nat
  transactionId :: string
  amount :: int
  pay_status :: payment_status
  pay_method :: payment_method
  gatewayTxn :: "int option"
  failureReason :: "string option"

text \<open>
  Documents as the routes construct them, before they are saved: the path that a
  pre-save hook is meant to generate may be absent.
\<close>

record order_document =
  od_userId :: nat
  od_orderNumber :: "string option"
  od_items :: "order_item list"
  od_totalAmount :: int
  od_status :: order_status
  od_shippingAddress :: address
  od_paymentMethod :: payment_method
  od_notes :: "string option"
  od_expiresAt :: int

record payment_document =
  pd_orderId :: nat
  pd_transactionId :: "string option"
  pd_amount :: int
  pd_status :: payment_status
  pd_method :: payment_method
  pd_gatewayTxn :: "int option"
  pd_failureReason :: "string option"

record email_job =
  job_orderId :: nat
  userEmail :: string
  userName :: string
  job_orderNumber :: string
  job_totalAmount :: int

record user =
  user_id :: nat
  email :: string
  uname :: string

text \<open>
  The persistent state: the four MongoDB collections the routes touch, and the Bull queue
  of services/emailQueue.js, which is \<open>None\<close> until \<open>initializeEmailQueue\<close> has run.
\<close>

record db =
  products :: "nat \<rightharpoonup> product"
  orders :: "order list"
  payments :: "payment list"
  carts :: "nat \<rightharpoonup> cart"
  emailQueue :: "email_job list option"

section \<open>Errors\<close>

text \<open>
  The messages the routes raise. The two checkout messages interpolate the product name
  (and the available stock); the others are fixed strings. An \<open>AppError\<close> carries the
  message and the HTTP status it is constructed with.
\<close>

datatype message =
    CartIsEmpty
  | ProductNoLongerAvailable string
  | InsufficientStockFor string int
  | OrderNotFound
  | UnauthorizedAccessToOrder
  | OrderHasExpiredAndBeenCancelled
  | CannotProcessPayment order_status
  | OrderAlreadyPaid
  | OrderHasBeenCancelled
  | OrderAlreadyShipped
  | OrderAlreadyDelivered
  | PaymentFailedTryAgain

datatype error =
    AppError message nat
  | ValidationError "string list"
  | TransactionsNotSupported
  | TypeError
  | EmailQueueNotInitialized

text \<open>
  \<open>ValidationError\<close> is what \<open>save\<close> rejects with when a validator fails; it carries
  the paths that failed. \<open>TransactionsNotSupported\<close> is the server error whose text is
  "Transaction numbers are only allowed on a replica set member or mongos";
  \<open>TypeError\<close> is the property access on a populated reference that came back null.
\<close>

definition replicaSetText :: string where
  "replicaSetText = ''Transaction numbers are only allowed on a replica set member or mongos''"

text \<open>\<open>String.prototype.includes\<close>: the needle occurs as a contiguous piece.\<close>

fun starts_with :: "string \<Rightarrow> string \<Rightarrow> bool" where
  "starts_with [] ys = True"
| "starts_with (x # xs) [] = False"
| "starts_with (x # xs) (y # ys) = (x = y \<and> starts_with xs ys)"

fun str_includes :: "string \<Rightarrow> string \<Rightarrow> bool" where
  "str_includes [] needle = (needle = [])"
| "str_includes (c # cs) needle = (starts_with needle (c # cs) \<or> str_includes cs needle)"

text \<open>
  Whether \<open>error.message.includes(...)\<close> finds the replica-set text. The fixed parts of
  the route messages contain neither an upper-case T nor the rest of the text, so an
  \<open>AppError\<close> can only match through an interpolated product name. The text of a
  \<open>ValidationError\<close> is made of path names and of the validators' fixed messages.
\<close>

fun mentionsReplicaSet :: "error \<Rightarrow> bool" where
  "mentionsReplicaSet TransactionsNotSupported = True"
| "mentionsReplicaSet (AppError (ProductNoLongerAvailable nm) c) = str_includes nm replicaSetText"
| "mentionsReplicaSet (AppError (InsufficientStockFor nm n) c) = str_includes nm replicaSetText"
| "mentionsReplicaSet e = False"

section \<open>Transactions (runWithTransaction, routes/orders)\<close>

datatype session = Session

text \<open>
  A database operation that carries a session belongs to the session's transaction; on a
  server that is not a replica-set member the first such operation is rejected.
\<close>

definition sessionRejected :: "bool \<Rightarrow> session option \<Rightarrow> bool" where
  "sessionRejected replicaSet sess = (sess \<noteq> None \<and> \<not> replicaSet)"

text \<open>
  Aborting a transaction discards every write made through its session. The e-mail queue
  lives outside MongoDB and is not restored.
\<close>

definition abortTransaction :: "db \<Rightarrow> db \<Rightarrow> db" where
  "abortTransaction before after =
     after\<lparr>products := products before, orders := orders before,
           payments := payments before, carts := carts before\<rparr>"

text \<open>
  \<open>session.withTransaction\<close> commits when the callback returns and aborts when it throws.
  \<open>runWithTransaction\<close> then retries the callback without a session when the error text
  names the replica-set problem, and rethrows any other error.
\<close>

definition runWithTransaction ::
  "(session option \<Rightarrow> db \<Rightarrow> (error + 'a) \<times> db) \<Rightarrow> db \<Rightarrow> (error + 'a) \<times> db" where
  "runWithTransaction callback d =
     (case callback (Some Session) d of
        (Inr r, d') \<Rightarrow> (Inr r, d')
      | (Inl e, d') \<Rightarrow>
          if mentionsReplicaSet e then callback None (abortTransaction d d')
          else (Inl e, abortTransaction d d'))"

section \<open>Inventory updates (Product.findByIdAndUpdate with $inc)\<close>

text \<open>An update of a missing product matches nothing. No validator runs on \<open>$inc\<close>.\<close>

definition incProduct :: "nat \<Rightarrow> int \<Rightarrow> int \<Rightarrow> (nat \<rightharpoonup> product) \<Rightarrow> (nat \<rightharpoonup> product)" where
  "incProduct pid dStock dReserved ps =
     (case ps pid of
        None \<Rightarrow> ps
      | Some p \<Rightarrow> ps(pid \<mapsto> p\<lparr>stock := stock p + dStock,
                              reservedStock := reservedStock p + dReserved\<rparr>))"

text \<open>The three loops over line items: reserve (checkout), release (expiry), commit (payment).\<close>

fun reserveAll :: "cart_item list \<Rightarrow> (nat \<rightharpoonup> product) \<Rightarrow> (nat \<rightharpoonup> product)" where
  "reserveAll [] ps = ps"
| "reserveAll (ci # cis) ps =
     reserveAll cis (incProduct (ci_productId ci) 0 (ci_quantity ci) ps)"

fun releaseAll :: "order_item list \<Rightarrow> (nat \<rightharpoonup> product) \<Rightarrow> (nat \<rightharpoonup> product)" where
  "releaseAll [] ps = ps"
| "releaseAll (it # its) ps =
     releaseAll its (incProduct (oi_productId it) 0 (- oi_quantity it) ps)"

fun commitAll :: "order_item list \<Rightarrow> (nat \<rightharpoonup> product) \<Rightarrow> (nat \<rightharpoonup> product)" where
  "commitAll [] ps = ps"
| "commitAll (it # its) ps =
     commitAll its (incProduct (oi_productId it) (- oi_quantity it) (- oi_quantity it) ps)"

section \<open>Orders (models/Order.js)\<close>

definition findById :: "order list \<Rightarrow> nat \<Rightarrow> order option" where
  "findById os oid = (if oid < length os then Some (os ! oid) else None)"

text \<open>\<open>order.status = s; order.save()\<close>: only the modified path is written, by id.\<close>

definition saveStatus :: "nat \<Rightarrow> order_status \<Rightarrow> order list \<Rightarrow> order list" where
  "saveStatus oid s os = (if oid < length os then os[oid := (os ! oid)\<lparr>status := s\<rparr>] else os)"

definition isExpired :: "order \<Rightarrow> int \<Rightarrow> bool" where
  "isExpired ord now = (status ord = PENDING_PAYMENT \<and> now > expiresAt ord)"

definition reservationWindow :: int where
  "reservationWindow = 15 * 60 * 1000"

section \<open>Saving a new document (validation, pre-save hook, insert)\<close>

text \<open>
  The \<open>required\<close> validator of a string path fails when the value is absent or empty.
\<close>

definition requiredPath :: "string \<Rightarrow> string option \<Rightarrow> string list" where
  "requiredPath path v = (case v of None \<Rightarrow> [path] | Some s \<Rightarrow> if s = [] then [path] else [])"

text \<open>The validators of the order-item and order schemas, as the list of failing paths.\<close>

definition orderItemErrors :: "order_item \<Rightarrow> string list" where
  "orderItemErrors it =
     (if oi_quantity it < 1 then [''items.quantity''] else [])
     @ (if priceAtPurchase it < 0 then [''items.priceAtPurchase''] else [])
     @ requiredPath ''items.productName'' (Some (productName it))"

definition orderValidationErrors :: "order_document \<Rightarrow> string list" where
  "orderValidationErrors doc =
     requiredPath ''orderNumber'' (od_orderNumber doc)
     @ concat (map orderItemErrors (od_items doc))
     @ (if od_totalAmount doc < 0 then [''totalAmount''] else [])
     @ requiredPath ''shippingAddress.street'' (Some (street (od_shippingAddress doc)))
     @ requiredPath ''shippingAddress.city'' (Some (city (od_shippingAddress doc)))
     @ requiredPath ''shippingAddress.state'' (Some (state (od_shippingAddress doc)))
     @ requiredPath ''shippingAddress.zipCode'' (Some (zipCode (od_shippingAddress doc)))
     @ requiredPath ''shippingAddress.country'' (Some (country (od_shippingAddress doc)))
     @ (case od_notes doc of None \<Rightarrow> [] | Some n \<Rightarrow> if 500 < length n then [''notes''] else [])"

text \<open>
  \<open>orderSchema.pre('save')\<close>: when the document has no order number, set the generated
  one. Mongoose runs this hook after validation, and only when validation passed.
\<close>

definition orderPreSave :: "string \<Rightarrow> order_document \<Rightarrow> order_document" where
  "orderPreSave generated doc =
     (if requiredPath ''orderNumber'' (od_orderNumber doc) \<noteq> []
      then doc\<lparr>od_orderNumber := Some generated\<rparr> else doc)"

text \<open>
  \<open>orderDoc.save()\<close>. Validation comes first and rejects before anything is sent to
  the database. A document that passes it has an order number, so the condition of the
  hook is false and the hook leaves the document as it is (lemma
  \<open>orderPreSave_after_validation\<close> below); the document is inserted with its own number.
\<close>

definition saveOrder ::
  "bool \<Rightarrow> session option \<Rightarrow> order_document \<Rightarrow> db \<Rightarrow> error + (order \<times> db)" where
  "saveOrder replicaSet sess doc d =
     (if orderValidationErrors doc \<noteq> [] then Inl (ValidationError (orderValidationErrors doc))
      else
        (case od_orderNumber doc of
           None \<Rightarrow> Inl (ValidationError [''orderNumber''])
         | Some ordNo \<Rightarrow>
             if sessionRejected replicaSet sess then Inl TransactionsNotSupported
             else
               let stored = \<lparr>userId = od_userId doc, orderNumber = ordNo,
                               items = od_items doc, totalAmount = od_totalAmount doc,
                               status = od_status doc,
                               shippingAddress = od_shippingAddress doc,
                               paymentMethod = od_paymentMethod doc,
                               order_notes = od_notes doc,
                               expiresAt = od_expiresAt doc\<rparr>
               in Inr (stored, d\<lparr>orders := orders d @ [stored]\<rparr>)))"

text \<open>
  The same for payments: the validators, the hook that generates the transaction id
  (the identity after validation, lemma \<open>paymentPreSave_after_validation\<close>), the insert.
\<close>

definition paymentValidationErrors :: "payment_document \<Rightarrow> string list" where
  "paymentValidationErrors doc =
     requiredPath ''transactionId'' (pd_transactionId doc)
     @ (if pd_amount doc < 0 then [''amount''] else [])
     @ (case pd_failureReason doc of
          None \<Rightarrow> []
        | Some r \<Rightarrow> if 500 < length r then [''failureReason''] else [])"

definition paymentPreSave :: "string \<Rightarrow> payment_document \<Rightarrow> payment_document" where
  "paymentPreSave generated doc =
     (if requiredPath ''transactionId'' (pd_transactionId doc) \<noteq> []
      then doc\<lparr>pd_transactionId := Some generated\<rparr> else doc)"

definition savePayment ::
  "bool \<Rightarrow> session option \<Rightarrow> payment_document \<Rightarrow> db \<Rightarrow> error + (payment \<times> db)" where
  "savePayment replicaSet sess doc d =
     (if paymentValidationErrors doc \<noteq> []
      then Inl (ValidationError (paymentValidationErrors doc))
      else
        (case pd_transactionId doc of
           None \<Rightarrow> Inl (ValidationError [''transactionId''])
         | Some txnId \<Rightarrow>
             if sessionRejected replicaSet sess then Inl TransactionsNotSupported
             else
               let stored = \<lparr>pay_orderId = pd_orderId doc, transactionId = txnId,
                               amount = pd_amount doc, pay_status = pd_status doc,
                               pay_method = pd_method doc, gatewayTxn = pd_gatewayTxn doc,
                               failureReason = pd_failureReason doc\<rparr>
               in Inr (stored, d\<lparr>payments := payments d @ [stored]\<rparr>)))"

section \<open>Checkout (POST /api/orders/checkout)\<close>

record checkout_body =
  body_shippingAddress :: address
  body_paymentMethod :: payment_method
  body_notes :: "string option"

text \<open>
  The validation loop runs over the cart as populated by \<open>Cart.findOne(...).populate\<close>:
  every line sees the product as it was read then. It stops at the first line that fails.
\<close>

fun validateItems ::
  "(nat \<rightharpoonup> product) \<Rightarrow> cart_item list \<Rightarrow> order_item list \<Rightarrow> int
     \<Rightarrow> error + (order_item list \<times> int)" where
  "validateItems ps [] orderItems tot = Inr (orderItems, tot)"
| "validateItems ps (ci # cis) orderItems tot =
     (case ps (ci_productId ci) of
        None \<Rightarrow> Inl TypeError
      | Some p \<Rightarrow>
          if \<not> isActive p then Inl (AppError (ProductNoLongerAvailable (name p)) 400)
          else if availableStock p < ci_quantity ci
            then Inl (AppError (InsufficientStockFor (name p) (availableStock p)) 400)
          else validateItems ps cis
                 (orderItems @ [\<lparr>oi_productId = ci_productId ci, oi_quantity = ci_quantity ci,
                                  priceAtPurchase = price p, productName = name p\<rparr>])
                 (tot + price p * ci_quantity ci))"

definition emptyCart :: cart where
  "emptyCart = \<lparr>cart_items = [], totalItems = 0, cart_totalAmount = 0\<rparr>"

datatype response =
    OrderCreated nat order int
  | PaymentProcessed nat string order_status int payment

text \<open>
  The callback handed to \<open>runWithTransaction\<close>. \<open>now\<close> is \<open>Date.now()\<close> when the order
  document is built. The route passes no order number to \<open>new Order\<close>. The first
  operation that carries the session is the save of the order document.
\<close>

definition checkoutCallback ::
  "bool \<Rightarrow> user \<Rightarrow> checkout_body \<Rightarrow> int \<Rightarrow> session option \<Rightarrow> db
     \<Rightarrow> (error + response) \<times> db" where
  "checkoutCallback replicaSet usr body now sess d =
     (case carts d (user_id usr) of
        None \<Rightarrow> (Inl (AppError CartIsEmpty 400), d)
      | Some c \<Rightarrow>
          if cart_items c = [] then (Inl (AppError CartIsEmpty 400), d)
          else
            (case validateItems (products d) (cart_items c) [] 0 of
               Inl e \<Rightarrow> (Inl e, d)
             | Inr (orderItems, tot) \<Rightarrow>
                 (case saveOrder replicaSet sess
                         \<lparr>od_userId = user_id usr, od_orderNumber = None,
                          od_items = orderItems, od_totalAmount = tot,
                          od_status = PENDING_PAYMENT,
                          od_shippingAddress = body_shippingAddress body,
                          od_paymentMethod = body_paymentMethod body,
                          od_notes = body_notes body,
                          od_expiresAt = now + reservationWindow\<rparr> d of
                    Inl e \<Rightarrow> (Inl e, d)
                  | Inr (orderDoc, d1) \<Rightarrow>
                      let d2 = d1\<lparr>products := reserveAll (cart_items c) (products d1)\<rparr>;
                          d3 = d2\<lparr>carts := (carts d2)(user_id usr \<mapsto> emptyCart)\<rparr>
                      in (Inr (OrderCreated (length (orders d)) orderDoc (expiresAt orderDoc)),
                          d3))))"

definition checkout ::
  "bool \<Rightarrow> user \<Rightarrow> checkout_body \<Rightarrow> int \<Rightarrow> db \<Rightarrow> (error + response) \<times> db" where
  "checkout replicaSet usr body now d =
     runWithTransaction (checkoutCallback replicaSet usr body now) d"

section \<open>Notification (services/emailQueue.js)\<close>

definition addEmailJob :: "email_job \<Rightarrow> db \<Rightarrow> error + db" where
  "addEmailJob job d =
     (case emailQueue d of
        None \<Rightarrow> Inl EmailQueueNotInitialized
      | Some q \<Rightarrow> Inr (d\<lparr>emailQueue := Some (q @ [job])\<rparr>))"

section \<open>Payment (POST /api/orders/:id/pay)\<close>

definition failedPaymentReason :: string where
  "failedPaymentReason = ''Payment gateway declined transaction''"

text \<open>The message chosen when the order is not awaiting payment.\<close>

fun statusErrorMessage :: "order_status \<Rightarrow> message" where
  "statusErrorMessage PAID = OrderAlreadyPaid"
| "statusErrorMessage CANCELLED = OrderHasBeenCancelled"
| "statusErrorMessage SHIPPED = OrderAlreadyShipped"
| "statusErrorMessage DELIVERED = OrderAlreadyDelivered"
| "statusErrorMessage s = CannotProcessPayment s"

text \<open>
  \<open>now\<close> is the clock read by \<open>isExpired\<close>, \<open>paymentSuccess\<close> the outcome of
  \<open>Math.random() > 0.1\<close>, \<open>txnTime\<close> the \<open>Date.now()\<close> of the gateway response. The
  route puts a transaction id into \<open>gatewayResponse\<close> and none into the payment's own
  \<open>transactionId\<close> path. The state returned with an error is the state at the throw;
  whether its writes survive is decided by \<open>runWithTransaction\<close>.
\<close>

definition payCallback ::
  "bool \<Rightarrow> user \<Rightarrow> nat \<Rightarrow> int \<Rightarrow> bool \<Rightarrow> int \<Rightarrow> session option \<Rightarrow> db
     \<Rightarrow> (error + response) \<times> db" where
  "payCallback replicaSet usr orderId now paymentSuccess txnTime sess d =
     (if sessionRejected replicaSet sess then (Inl TransactionsNotSupported, d)
      else
        (case findById (orders d) orderId of
           None \<Rightarrow> (Inl (AppError OrderNotFound 404), d)
         | Some ord \<Rightarrow>
             if userId ord \<noteq> user_id usr then (Inl (AppError UnauthorizedAccessToOrder 403), d)
             else if status ord = PENDING_PAYMENT \<and> isExpired ord now then
               let d1 = d\<lparr>orders := saveStatus orderId CANCELLED (orders d)\<rparr>;
                   d2 = d1\<lparr>products := releaseAll (items ord) (products d1)\<rparr>
               in (Inl (AppError OrderHasExpiredAndBeenCancelled 400), d2)
             else if status ord \<noteq> PENDING_PAYMENT then
               (Inl (AppError (statusErrorMessage (status ord)) 400), d)
             else if \<not> paymentSuccess then
               (case savePayment replicaSet sess
                       \<lparr>pd_orderId = orderId, pd_transactionId = None,
                        pd_amount = totalAmount ord, pd_status = FAILED,
                        pd_method = paymentMethod ord, pd_gatewayTxn = None,
                        pd_failureReason = Some failedPaymentReason\<rparr> d of
                  Inl e \<Rightarrow> (Inl e, d)
                | Inr (failedPayment, d1) \<Rightarrow> (Inl (AppError PaymentFailedTryAgain 400), d1))
             else
               (case savePayment replicaSet sess
                       \<lparr>pd_orderId = orderId, pd_transactionId = None,
                        pd_amount = totalAmount ord, pd_status = SUCCESS,
                        pd_method = paymentMethod ord, pd_gatewayTxn = Some txnTime,
                        pd_failureReason = None\<rparr> d of
                  Inl e \<Rightarrow> (Inl e, d)
                | Inr (paymentDoc, d1) \<Rightarrow>
                    let d2 = d1\<lparr>orders := saveStatus orderId PAID (orders d1)\<rparr>;
                        d3 = d2\<lparr>products := commitAll (items ord) (products d2)\<rparr>
                    in (case addEmailJob \<lparr>job_orderId = orderId, userEmail = email usr,
                                           userName = uname usr,
                                           job_orderNumber = orderNumber ord,
                                           job_totalAmount = totalAmount ord\<rparr> d3 of
                          Inl e \<Rightarrow> (Inl e, d3)
                        | Inr d4 \<Rightarrow>
                            (Inr (PaymentProcessed orderId (orderNumber ord) PAID
                                    (totalAmount ord) paymentDoc), d4)))))"

definition pay ::
  "bool \<Rightarrow> user \<Rightarrow> nat \<Rightarrow> int \<Rightarrow> bool \<Rightarrow> int \<Rightarrow> db \<Rightarrow> (error + response) \<times> db" where
  "pay replicaSet usr orderId now paymentSuccess txnTime d =
     runWithTransaction (payCallback replicaSet usr orderId now paymentSuccess txnTime) d"

section \<open>Expiration sweep (setInterval, routes/orders)\<close>

text \<open>
  \<open>Order.find({status: 'PENDING_PAYMENT', expiresAt: {$lt: now}})\<close>: the ids of the
  matching orders with the documents as read at that moment.
\<close>

definition findExpired :: "order list \<Rightarrow> int \<Rightarrow> (nat \<times> order) list" where
  "findExpired os now =
     filter (\<lambda>(i, ord). status ord = PENDING_PAYMENT \<and> expiresAt ord < now)
            (zip [0..<length os] os)"

text \<open>
  The body of the loop works on the document read by the query: it sets the status,
  saves, and releases the document's items, each order in a transaction of its own.
\<close>

definition cancelCallback ::
  "bool \<Rightarrow> nat \<times> order \<Rightarrow> session option \<Rightarrow> db \<Rightarrow> (error + unit) \<times> db" where
  "cancelCallback replicaSet doc sess d =
     (if sessionRejected replicaSet sess then (Inl TransactionsNotSupported, d)
      else
        let d1 = d\<lparr>orders := saveStatus (fst doc) CANCELLED (orders d)\<rparr>;
            d2 = d1\<lparr>products := releaseAll (items (snd doc)) (products d1)\<rparr>
        in (Inr (), d2))"

text \<open>An error of one order is logged and the loop goes on.\<close>

definition cancelExpired :: "bool \<Rightarrow> nat \<times> order \<Rightarrow> db \<Rightarrow> db" where
  "cancelExpired replicaSet doc d = snd (runWithTransaction (cancelCallback replicaSet doc) d)"

definition sweep :: "bool \<Rightarrow> int \<Rightarrow> db \<Rightarrow> db" where
  "sweep replicaSet now d = fold (cancelExpired replicaSet) (findExpired (orders d) now) d"

section \<open>Admin status update (PATCH /api/admin/orders/:id/status)\<close>

fun validTransitions :: "order_status \<Rightarrow> order_status list" where
  "validTransitions PENDING_PAYMENT = [PAID, CANCELLED]"
| "validTransitions PAID = [SHIPPED, CANCELLED]"
| "validTransitions SHIPPED = [DELIVERED]"
| "validTransitions DELIVERED = []"
| "validTransitions CANCELLED = []"

datatype admin_response =
    NotFound404
  | InvalidStatusTransition400 order_status order_status
  | StatusUpdated200 nat string order_status

definition updateOrderStatus :: "nat \<Rightarrow> order_status \<Rightarrow> db \<Rightarrow> admin_response \<times> db" where
  "updateOrderStatus orderId newStatus d =
     (case findById (orders d) orderId of
        None \<Rightarrow> (NotFound404, d)
      | Some ord \<Rightarrow>
          if newStatus \<notin> set (validTransitions (status ord))
            then (InvalidStatusTransition400 (status ord) newStatus, d)
          else (StatusUpdated200 orderId (orderNumber ord) newStatus,
                d\<lparr>orders := saveStatus orderId newStatus (orders d)\<rparr>))"

section \<open>Vocabulary of the properties\<close>

text \<open>The units a list of cart lines, or of order items, holds of one product.\<close>

definition lineQty :: "nat \<Rightarrow> cart_item list \<Rightarrow> int" where
  "lineQty pid cis = sum_list (map ci_quantity (filter (\<lambda>ci. ci_productId ci = pid) cis))"

definition itemQty :: "nat \<Rightarrow> order_item list \<Rightarrow> int" where
  "itemQty pid its = sum_list (map oi_quantity (filter (\<lambda>it. oi_productId it = pid) its))"

text \<open>The transitions the admin route is meant to allow.\<close>

definition legalTransitions :: "(order_status \<times> order_status) set" where
  "legalTransitions = {(PENDING_PAYMENT, PAID), (PENDING_PAYMENT, CANCELLED),
                       (PAID, SHIPPED), (PAID, CANCELLED), (SHIPPED, DELIVERED)}"

section \<open>Example states\<close>

text \<open>
  One product with 50 units and one customer. In \<open>shop\<close> her cart holds 3 of them and
  there is no order. In \<open>shopPending\<close> an order of hers for 3 units awaits payment, with
  the 3 units reserved; in \<open>shopCancelled\<close> that order has been cancelled and the units
  released.
\<close>

definition widget :: product where
  "widget = \<lparr>name = ''Widget'', price = 10, stock = 50, reservedStock = 0, isActive = True\<rparr>"

definition alice :: user where
  "alice = \<lparr>user_id = 1, email = ''alice@example.com'', uname = ''Alice''\<rparr>"

definition home :: address where
  "home = \<lparr>street = ''1 Main St'', city = ''Springfield'', state = ''IL'',
            zipCode = ''62701'', country = ''US''\<rparr>"

definition aliceBody :: checkout_body where
  "aliceBody = \<lparr>body_shippingAddress = home, body_paymentMethod = CREDIT_CARD,
                 body_notes = None\<rparr>"

definition aliceCart :: cart where
  "aliceCart = \<lparr>cart_items = [\<lparr>ci_productId = 7, ci_quantity = 3\<rparr>],
                 totalItems = 3, cart_totalAmount = 30\<rparr>"

definition shop :: db where
  "shop = \<lparr>products = [7 \<mapsto> widget], orders = [], payments = [],
            carts = [1 \<mapsto> aliceCart], emailQueue = Some []\<rparr>"

definition aliceOrder :: order where
  "aliceOrder = \<lparr>userId = 1, orderNumber = ''ORD-1'',
       items = [\<lparr>oi_productId = 7, oi_quantity = 3, priceAtPurchase = 10,
                 productName = ''Widget''\<rparr>],
       totalAmount = 30, status = PENDING_PAYMENT, shippingAddress = home,
       paymentMethod = CREDIT_CARD, order_notes = None, expiresAt = 901000\<rparr>"

definition shopPending :: db where
  "shopPending = \<lparr>products = [7 \<mapsto> widget\<lparr>reservedStock := 3\<rparr>], orders = [aliceOrder],
       payments = [], carts = [1 \<mapsto> emptyCart], emailQueue = Some []\<rparr>"

definition shopCancelled :: db where
  "shopCancelled = \<lparr>products = [7 \<mapsto> widget], orders = [aliceOrder\<lparr>status := CANCELLED\<rparr>],
       payments = [], carts = [1 \<mapsto> emptyCart], emailQueue = Some []\<rparr>"

text \<open>
  \<open>shopUncovered\<close>: the same pending order, but no unit is reserved for it; every
  product still has \<open>0 \<le> reservedStock \<le> stock\<close>. \<open>shopOrphan\<close>: the cart's first line
  refers to product 9, which has been deleted, and its second line asks for 60 widgets,
  ten more than there are.
\<close>

definition shopUncovered :: db where
  "shopUncovered = \<lparr>products = [7 \<mapsto> widget], orders = [aliceOrder], payments = [],
       carts = [1 \<mapsto> emptyCart], emailQueue = Some []\<rparr>"

definition orphanCart :: cart where
  "orphanCart = \<lparr>cart_items = [\<lparr>ci_productId = 9, ci_quantity = 1\<rparr>,
                                 \<lparr>ci_productId = 7, ci_quantity = 60\<rparr>],
                  totalItems = 60, cart_totalAmount = 600\<rparr>"

definition shopOrphan :: db where
  "shopOrphan = \<lparr>products = [7 \<mapsto> widget], orders = [], payments = [],
       carts = [1 \<mapsto> orphanCart], emailQueue = Some []\<rparr>"

section \<open>Basic facts\<close>

lemma abortTransaction_same: "abortTransaction d d = d"
  by (simp add: abortTransaction_def)

lemma abortTransaction_fields:
  "products (abortTransaction d d') = products d"
  "orders (abortTransaction d d') = orders d"
  "payments (abortTransaction d d') = payments d"
  "carts (abortTransaction d d') = carts d"
  "emailQueue (abortTransaction d d') = emailQueue d'"
  by (simp_all add: abortTransaction_def)

lemma incProduct_apply:
  "incProduct pid dS dR ps q =
     (if q = pid
      then map_option (\<lambda>p. p\<lparr>stock := stock p + dS, reservedStock := reservedStock p + dR\<rparr>) (ps q)
      else ps q)"
  by (simp add: incProduct_def split: option.splits)

lemma reserveAll_apply:
  "reserveAll cis ps pid =
     map_option (\<lambda>p. p\<lparr>reservedStock := reservedStock p + lineQty pid cis\<rparr>) (ps pid)"
proof (induction cis arbitrary: ps)
  case Nil
  then show ?case by (cases "ps pid") (simp_all add: lineQty_def)
next
  case (Cons ci cis)
  then show ?case
    by (cases "ps pid") (auto simp: lineQty_def incProduct_apply)
qed

lemma releaseAll_apply:
  "releaseAll its ps pid =
     map_option (\<lambda>p. p\<lparr>reservedStock := reservedStock p - itemQty pid its\<rparr>) (ps pid)"
proof (induction its arbitrary: ps)
  case Nil
  then show ?case by (cases "ps pid") (simp_all add: itemQty_def)
next
  case (Cons it its)
  then show ?case
    by (cases "ps pid") (auto simp: itemQty_def incProduct_apply)
qed

lemma commitAll_apply:
  "commitAll its ps pid =
     map_option (\<lambda>p. p\<lparr>stock := stock p - itemQty pid its,
                        reservedStock := reservedStock p - itemQty pid its\<rparr>) (ps pid)"
proof (induction its arbitrary: ps)
  case Nil
  then show ?case by (cases "ps pid") (simp_all add: itemQty_def)
next
  case (Cons it its)
  then show ?case
    by (cases "ps pid") (auto simp: itemQty_def incProduct_apply)
qed

lemma saveStatus_found:
  "findById os oid = Some ord \<Longrightarrow> saveStatus oid s os = os[oid := ord\<lparr>status := s\<rparr>]"
  by (auto simp: findById_def saveStatus_def split: if_splits)

lemma saveStatus_modulo_status:
  "map (\<lambda>x. x\<lparr>status := c\<rparr>) (saveStatus oid s os) = map (\<lambda>x. x\<lparr>status := c\<rparr>) os"
  by (simp add: saveStatus_def map_update list_update_same_conv)

section \<open>Admin status update\<close>

lemma updateOrderStatus_cases:
  assumes "findById (orders d) oid = Some ord"
  shows "updateOrderStatus oid s d =
     (if (status ord, s) \<in> legalTransitions
      then (StatusUpdated200 oid (orderNumber ord) s,
            d\<lparr>orders := (orders d)[oid := ord\<lparr>status := s\<rparr>]\<rparr>)
      else (InvalidStatusTransition400 (status ord) s, d))"
  using assms
  by (cases "status ord"; cases s)
     (auto simp: updateOrderStatus_def saveStatus_def findById_def legalTransitions_def
           split: if_splits)

text \<open>
  Claim C7. For an existing order the admin status update succeeds exactly on the five
  pairs PENDING_PAYMENT to PAID, PENDING_PAYMENT to CANCELLED, PAID to SHIPPED, PAID to
  CANCELLED and SHIPPED to DELIVERED, and then writes the requested status. On every
  other pair (every self-transition and every move out of DELIVERED or CANCELLED
  included) it answers with the invalid-transition error that carries the current and
  the requested status, and the database, hence the order's status, is unchanged.
\<close>

theorem admin_status_transitions:
  assumes "findById (orders d) oid = Some ord"
  shows "((status ord, s) \<in> {(PENDING_PAYMENT, PAID), (PENDING_PAYMENT, CANCELLED),
                              (PAID, SHIPPED), (PAID, CANCELLED), (SHIPPED, DELIVERED)}
          \<longrightarrow> updateOrderStatus oid s d =
                (StatusUpdated200 oid (orderNumber ord) s,
                 d\<lparr>orders := (orders d)[oid := ord\<lparr>status := s\<rparr>]\<rparr>))
       \<and> ((status ord, s) \<notin> {(PENDING_PAYMENT, PAID), (PENDING_PAYMENT, CANCELLED),
                              (PAID, SHIPPED), (PAID, CANCELLED), (SHIPPED, DELIVERED)}
          \<longrightarrow> updateOrderStatus oid s d = (InvalidStatusTransition400 (status ord) s, d))
       \<and> (s = status ord \<or> status ord = DELIVERED \<or> status ord = CANCELLED
          \<longrightarrow> updateOrderStatus oid s d = (InvalidStatusTransition400 (status ord) s, d))"
  using updateOrderStatus_cases [OF assms, of s]
  by (cases "status ord"; cases s) (simp_all add: legalTransitions_def)

theorem admin_status_transitions_witness:
  "findById (orders shopPending) 0 = Some aliceOrder
   \<and> updateOrderStatus 0 PAID shopPending =
       (StatusUpdated200 0 ''ORD-1'' PAID,
        shopPending\<lparr>orders := [aliceOrder\<lparr>status := PAID\<rparr>]\<rparr>)
   \<and> updateOrderStatus 0 SHIPPED shopPending =
       (InvalidStatusTransition400 PENDING_PAYMENT SHIPPED, shopPending)
   \<and> updateOrderStatus 0 PENDING_PAYMENT shopPending =
       (InvalidStatusTransition400 PENDING_PAYMENT PENDING_PAYMENT, shopPending)"
proof -
  have f: "findById (orders shopPending) 0 = Some aliceOrder"
    by (simp add: findById_def shopPending_def)
  have st: "status aliceOrder = PENDING_PAYMENT" "orderNumber aliceOrder = ''ORD-1''"
    by (simp_all add: aliceOrder_def)
  have o: "(orders shopPending)[0 := aliceOrder\<lparr>status := PAID\<rparr>] = [aliceOrder\<lparr>status := PAID\<rparr>]"
    by (simp add: shopPending_def)
  show ?thesis
    using f admin_status_transitions [OF f, of PAID]
          admin_status_transitions [OF f, of SHIPPED]
          admin_status_transitions [OF f, of PENDING_PAYMENT]
    by (simp add: st o)
qed

text \<open>
  Claim C10. The admin status update writes the status field of one order and nothing
  else: products (stock and reservedStock), payments, carts and the e-mail queue are the
  same afterwards, and the orders are the same up to their status. In particular, when
  it moves an order from PENDING_PAYMENT to CANCELLED or to PAID, the update succeeds
  and every product keeps its stock and its reservedStock: the reservation made at
  checkout is not released, and nothing is deducted from stock.
\<close>

theorem admin_update_leaves_inventory:
  "products (snd (updateOrderStatus oid s d)) = products d
   \<and> payments (snd (updateOrderStatus oid s d)) = payments d
   \<and> carts (snd (updateOrderStatus oid s d)) = carts d
   \<and> emailQueue (snd (updateOrderStatus oid s d)) = emailQueue d
   \<and> map (\<lambda>x. x\<lparr>status := PENDING_PAYMENT\<rparr>) (orders (snd (updateOrderStatus oid s d)))
       = map (\<lambda>x. x\<lparr>status := PENDING_PAYMENT\<rparr>) (orders d)
   \<and> (findById (orders d) oid = Some ord \<and> status ord = PENDING_PAYMENT
        \<and> (s = CANCELLED \<or> s = PAID)
      \<longrightarrow> fst (updateOrderStatus oid s d) = StatusUpdated200 oid (orderNumber ord) s
          \<and> orders (snd (updateOrderStatus oid s d)) = (orders d)[oid := ord\<lparr>status := s\<rparr>]
          \<and> products (snd (updateOrderStatus oid s d)) = products d)"
proof -
  have frame: "products (snd (updateOrderStatus oid s d)) = products d
      \<and> payments (snd (updateOrderStatus oid s d)) = payments d
      \<and> carts (snd (updateOrderStatus oid s d)) = carts d
      \<and> emailQueue (snd (updateOrderStatus oid s d)) = emailQueue d"
    by (simp add: updateOrderStatus_def split: option.splits)
  have ords: "map (\<lambda>x. x\<lparr>status := PENDING_PAYMENT\<rparr>) (orders (snd (updateOrderStatus oid s d)))
       = map (\<lambda>x. x\<lparr>status := PENDING_PAYMENT\<rparr>) (orders d)"
    by (simp add: updateOrderStatus_def saveStatus_modulo_status split: option.splits)
  have spec: "fst (updateOrderStatus oid s d) = StatusUpdated200 oid (orderNumber ord) s
          \<and> orders (snd (updateOrderStatus oid s d)) = (orders d)[oid := ord\<lparr>status := s\<rparr>]"
    if "findById (orders d) oid = Some ord" "status ord = PENDING_PAYMENT"
       "s = CANCELLED \<or> s = PAID"
    using that updateOrderStatus_cases [OF that(1), of s]
    by (auto simp: legalTransitions_def)
  show ?thesis using frame ords spec by blast
qed

theorem admin_update_leaves_inventory_witness:
  "findById (orders shopPending) 0 = Some aliceOrder \<and> status aliceOrder = PENDING_PAYMENT
   \<and> fst (updateOrderStatus 0 CANCELLED shopPending) = StatusUpdated200 0 ''ORD-1'' CANCELLED
   \<and> orders (snd (updateOrderStatus 0 CANCELLED shopPending)) = [aliceOrder\<lparr>status := CANCELLED\<rparr>]
   \<and> products (snd (updateOrderStatus 0 CANCELLED shopPending)) 7
       = Some \<lparr>name = ''Widget'', price = 10, stock = 50, reservedStock = 3, isActive = True\<rparr>"
proof -
  have f: "findById (orders shopPending) 0 = Some aliceOrder"
    by (simp add: findById_def shopPending_def)
  have st: "status aliceOrder = PENDING_PAYMENT" "orderNumber aliceOrder = ''ORD-1''"
    by (simp_all add: aliceOrder_def)
  have o: "(orders shopPending)[0 := aliceOrder\<lparr>status := CANCELLED\<rparr>]
             = [aliceOrder\<lparr>status := CANCELLED\<rparr>]"
    by (simp add: shopPending_def)
  have p: "products shopPending 7
       = Some \<lparr>name = ''Widget'', price = 10, stock = 50, reservedStock = 3, isActive = True\<rparr>"
    by (simp add: shopPending_def widget_def)
  show ?thesis
    using f st admin_update_leaves_inventory [of 0 CANCELLED shopPending aliceOrder]
    by (simp add: o p)
qed

section \<open>Saving a new document\<close>

text \<open>
  A document that passed validation has the generated path already: the pre-save hook
  changes nothing, whatever it would have generated.
\<close>

lemma orderPreSave_after_validation:
  "orderValidationErrors doc = [] \<Longrightarrow> orderPreSave generated doc = doc"
  by (simp add: orderValidationErrors_def orderPreSave_def)

lemma paymentPreSave_after_validation:
  "paymentValidationErrors doc = [] \<Longrightarrow> paymentPreSave generated doc = doc"
  by (simp add: paymentValidationErrors_def paymentPreSave_def)

text \<open>A document built without the generated path is rejected, and nothing is written.\<close>

lemma saveOrder_without_number:
  "od_orderNumber doc = None \<Longrightarrow>
     \<exists>errs. saveOrder rs sess doc d = Inl (ValidationError (''orderNumber'' # errs))"
  by (simp add: saveOrder_def orderValidationErrors_def requiredPath_def)

lemma savePayment_without_id:
  "pd_transactionId doc = None \<Longrightarrow>
     \<exists>errs. savePayment rs sess doc d = Inl (ValidationError (''transactionId'' # errs))"
  by (simp add: savePayment_def paymentValidationErrors_def requiredPath_def)

section \<open>Checkout\<close>

lemma validateItems_passes:
  assumes "\<forall>ci\<in>set cis. \<exists>p. ps (ci_productId ci) = Some p \<and> isActive p
                              \<and> ci_quantity ci \<le> availableStock p"
  shows "\<exists>its t. validateItems ps cis acc tot = Inr (its, t)"
  using assms
proof (induction cis arbitrary: acc tot)
  case Nil
  then show ?case by simp
next
  case (Cons ci cis)
  from Cons.prems obtain p where p: "ps (ci_productId ci) = Some p" "isActive p"
      "ci_quantity ci \<le> availableStock p"
    by auto
  from Cons.prems have rest: "\<forall>ci\<in>set cis. \<exists>p. ps (ci_productId ci) = Some p \<and> isActive p
                              \<and> ci_quantity ci \<le> availableStock p"
    by simp
  from Cons.IH [OF rest] p show ?case by simp
qed

text \<open>
  The callback always ends in an error raised before the first write, the same error
  with or without a session: every path either fails a check of the route or reaches
  the save of an order document that has no order number.
\<close>

lemma checkoutCallback_fails:
  "\<exists>e. \<forall>sess. checkoutCallback rs usr body now sess d = (Inl e, d)"
proof (cases "carts d (user_id usr)")
  case None
  then show ?thesis by (simp add: checkoutCallback_def)
next
  case (Some c)
  show ?thesis
  proof (cases "cart_items c = []")
    case True
    with Some show ?thesis by (simp add: checkoutCallback_def)
  next
    case ne: False
    show ?thesis
    proof (cases "validateItems (products d) (cart_items c) [] 0")
      case (Inl e)
      with Some ne show ?thesis by (simp add: checkoutCallback_def)
    next
      case (Inr res)
      obtain its tot where res: "res = (its, tot)" by (cases res)
      with Some ne Inr show ?thesis
        by (simp add: checkoutCallback_def saveOrder_def orderValidationErrors_def
                      requiredPath_def)
    qed
  qed
qed

lemma checkout_never_writes: "\<exists>e. checkout rs usr body now d = (Inl e, d)"
proof -
  from checkoutCallback_fails [of rs usr body now d]
  obtain e where e: "\<And>sess. checkoutCallback rs usr body now sess d = (Inl e, d)" by blast
  then show ?thesis
    by (simp add: checkout_def runWithTransaction_def abortTransaction_same)
qed

lemma checkout_valid_cart_rejected:
  assumes "carts d (user_id usr) = Some c" and "cart_items c \<noteq> []"
      and "\<forall>ci\<in>set (cart_items c). \<exists>p. products d (ci_productId ci) = Some p \<and> isActive p
                                         \<and> ci_quantity ci \<le> availableStock p"
  shows "\<exists>errs. checkout rs usr body now d = (Inl (ValidationError (''orderNumber'' # errs)), d)"
proof -
  from validateItems_passes [OF assms(3), of "[]" 0]
  obtain its t where v: "validateItems (products d) (cart_items c) [] 0 = Inr (its, t)"
    by blast
  let ?doc = "\<lparr>od_userId = user_id usr, od_orderNumber = None, od_items = its,
               od_totalAmount = t, od_status = PENDING_PAYMENT,
               od_shippingAddress = body_shippingAddress body,
               od_paymentMethod = body_paymentMethod body, od_notes = body_notes body,
               od_expiresAt = now + reservationWindow\<rparr>"
  have "od_orderNumber ?doc = None" by simp
  from saveOrder_without_number [OF this]
  have sv: "\<exists>errs. saveOrder rs sess ?doc d = Inl (ValidationError (''orderNumber'' # errs))"
    for sess .
  from sv [of "Some Session"] obtain errs where
      e1: "saveOrder rs (Some Session) ?doc d = Inl (ValidationError (''orderNumber'' # errs))"
    by blast
  have cb: "checkoutCallback rs usr body now (Some Session) d
              = (Inl (ValidationError (''orderNumber'' # errs)), d)"
    using assms(1,2) v e1 by (simp add: checkoutCallback_def)
  then have "checkout rs usr body now d = (Inl (ValidationError (''orderNumber'' # errs)), d)"
    by (simp add: checkout_def runWithTransaction_def abortTransaction_same)
  then show ?thesis by blast
qed

text \<open>
  Claim C2, at a concrete state. The cart of the example shop holds 3 widgets, the
  widget is active and 50 are available. Checkout, with or without transaction support,
  fails with the validation error for the missing order number and the database is
  exactly as before: no order in status PENDING_PAYMENT is created, reservedStock is
  still 0 and the cart still holds its line.
\<close>

theorem checkout_valid_cart_fails_validation:
  "cart_items aliceCart = [\<lparr>ci_productId = 7, ci_quantity = 3\<rparr>]
   \<and> isActive widget \<and> availableStock widget = 50
   \<and> checkout True alice aliceBody 1000 shop = (Inl (ValidationError [''orderNumber'']), shop)
   \<and> checkout False alice aliceBody 1000 shop = (Inl (ValidationError [''orderNumber'']), shop)
   \<and> orders shop = []
   \<and> map_option reservedStock (products shop 7) = Some 0
   \<and> carts shop 1 = Some aliceCart"
proof -
  have cb: "checkoutCallback rs alice aliceBody 1000 sess shop
              = (Inl (ValidationError [''orderNumber'']), shop)" for rs sess
    by (simp add: checkoutCallback_def saveOrder_def orderValidationErrors_def
                  orderItemErrors_def requiredPath_def shop_def alice_def aliceBody_def
                  aliceCart_def widget_def home_def availableStock_def)
  have run: "checkout rs alice aliceBody 1000 shop
               = (Inl (ValidationError [''orderNumber'']), shop)" for rs
    by (simp add: checkout_def runWithTransaction_def cb abortTransaction_same)
  have facts: "cart_items aliceCart = [\<lparr>ci_productId = 7, ci_quantity = 3\<rparr>]"
      "isActive widget" "availableStock widget = 50" "orders shop = []"
      "map_option reservedStock (products shop 7) = Some 0" "carts shop 1 = Some aliceCart"
    by (simp_all add: aliceCart_def widget_def availableStock_def shop_def)
  show ?thesis using run facts by simp
qed

text \<open>
  Claim C6, at a concrete state. The first line of the cart refers to a deleted product
  and the second asks for 60 widgets when 50 are available. Checkout, with or without
  transaction support, fails with the type error of reading \<open>isActive\<close> of the missing
  product, an error that names no product; it never reaches the line that is short of
  stock. The database is exactly as before.
\<close>

theorem checkout_deleted_product_type_error:
  "carts shopOrphan (user_id alice) = Some orphanCart
   \<and> cart_items orphanCart = [\<lparr>ci_productId = 9, ci_quantity = 1\<rparr>,
                               \<lparr>ci_productId = 7, ci_quantity = 60\<rparr>]
   \<and> products shopOrphan 9 = None
   \<and> products shopOrphan 7 = Some widget \<and> availableStock widget < 60
   \<and> checkout True alice aliceBody 1000 shopOrphan = (Inl TypeError, shopOrphan)
   \<and> checkout False alice aliceBody 1000 shopOrphan = (Inl TypeError, shopOrphan)"
proof -
  have cb: "checkoutCallback rs alice aliceBody 1000 sess shopOrphan = (Inl TypeError, shopOrphan)"
    for rs sess
    by (simp add: checkoutCallback_def shopOrphan_def orphanCart_def alice_def)
  have run: "checkout rs alice aliceBody 1000 shopOrphan = (Inl TypeError, shopOrphan)" for rs
    by (simp add: checkout_def runWithTransaction_def cb abortTransaction_same)
  have facts: "carts shopOrphan (user_id alice) = Some orphanCart"
      "cart_items orphanCart = [\<lparr>ci_productId = 9, ci_quantity = 1\<rparr>,
                                \<lparr>ci_productId = 7, ci_quantity = 60\<rparr>]"
      "products shopOrphan 9 = None" "products shopOrphan 7 = Some widget"
      "availableStock widget < 60"
    by (simp_all add: shopOrphan_def orphanCart_def alice_def widget_def availableStock_def)
  show ?thesis using run facts by simp
qed

section \<open>Payment\<close>

lemma statusErrorMessage_not_replica_error:
  "\<not> mentionsReplicaSet (AppError (statusErrorMessage s) c)"
  by (cases s) simp_all

lemma payCallback_not_replica_error:
  "payCallback True usr oid now ok txn sess d = (Inl e, d') \<Longrightarrow> \<not> mentionsReplicaSet e"
  by (auto simp: payCallback_def sessionRejected_def Let_def addEmailJob_def
                 statusErrorMessage_not_replica_error savePayment_def
                 paymentValidationErrors_def requiredPath_def
           split: option.splits if_splits sum.splits)

lemma pay_with_transactions:
  "pay True usr oid now ok txn d =
     (case payCallback True usr oid now ok txn (Some Session) d of
        (Inr r, d') \<Rightarrow> (Inr r, d')
      | (Inl e, d') \<Rightarrow> (Inl e, abortTransaction d d'))"
proof (cases "payCallback True usr oid now ok txn (Some Session) d")
  case (Pair res d')
  show ?thesis
  proof (cases res)
    case (Inl e)
    with Pair payCallback_not_replica_error [of usr oid now ok txn "Some Session" d e d']
    show ?thesis by (simp add: pay_def runWithTransaction_def)
  next
    case (Inr r)
    with Pair show ?thesis by (simp add: pay_def runWithTransaction_def)
  qed
qed

lemma pay_without_transactions:
  "pay False usr oid now ok txn d = payCallback False usr oid now ok txn None d"
proof -
  have "payCallback False usr oid now ok txn (Some Session) d = (Inl TransactionsNotSupported, d)"
    by (simp add: payCallback_def sessionRejected_def)
  then show ?thesis
    by (simp add: pay_def runWithTransaction_def abortTransaction_same)
qed

lemma pay_expired_with_transactions:
  assumes "findById (orders d) oid = Some ord" and "userId ord = user_id usr"
      and "status ord = PENDING_PAYMENT" and "now > expiresAt ord"
  shows "pay True usr oid now ok txn d = (Inl (AppError OrderHasExpiredAndBeenCancelled 400), d)"
  using assms
  by (simp add: pay_with_transactions payCallback_def sessionRejected_def isExpired_def
                abortTransaction_def Let_def)

lemma pay_expired_without_transactions:
  assumes "findById (orders d) oid = Some ord" and "userId ord = user_id usr"
      and "status ord = PENDING_PAYMENT" and "now > expiresAt ord"
  shows "pay False usr oid now ok txn d =
     (Inl (AppError OrderHasExpiredAndBeenCancelled 400),
      d\<lparr>orders := (orders d)[oid := ord\<lparr>status := CANCELLED\<rparr>],
        products := releaseAll (items ord) (products d)\<rparr>)"
  using assms
  by (simp add: pay_without_transactions payCallback_def sessionRejected_def isExpired_def
                Let_def saveStatus_found)

text \<open>
  For an order that awaits payment and has not expired, both payment branches build a
  payment document without a transaction id and save it first: the save is rejected and
  the call fails with that validation error, whatever the simulator decided, with the
  database as before.
\<close>

lemma pay_payment_rejected:
  assumes "findById (orders d) oid = Some ord" and "userId ord = user_id usr"
      and "status ord = PENDING_PAYMENT" and "\<not> now > expiresAt ord"
  shows "\<exists>errs. pay rs usr oid now ok txn d = (Inl (ValidationError (''transactionId'' # errs)), d)"
proof -
  have cb: "\<exists>errs. payCallback rs usr oid now ok txn sess d
                     = (Inl (ValidationError (''transactionId'' # errs)), d)"
    if "\<not> sessionRejected rs sess" for sess
    using assms that
    by (cases ok)
       (simp_all add: payCallback_def isExpired_def savePayment_def
                      paymentValidationErrors_def requiredPath_def)
  show ?thesis
  proof (cases rs)
    case True
    from cb [of "Some Session"] True obtain errs where
      "payCallback rs usr oid now ok txn (Some Session) d
         = (Inl (ValidationError (''transactionId'' # errs)), d)"
      by (auto simp: sessionRejected_def)
    with True show ?thesis
      by (simp add: pay_with_transactions abortTransaction_same)
  next
    case False
    from cb [of None] obtain errs where
      "payCallback rs usr oid now ok txn None d
         = (Inl (ValidationError (''transactionId'' # errs)), d)"
      by (auto simp: sessionRejected_def)
    with False show ?thesis
      by (simp add: pay_without_transactions)
  qed
qed

text \<open>
  Claim C3, at a concrete state. The order of \<open>shopPending\<close> awaits payment, is not
  expired at time 2000, belongs to the caller, and the simulator succeeds. Pay, with or
  without transaction support, fails with the validation error for the missing
  transaction id and the database is exactly as before: no SUCCESS payment is recorded,
  the order is still PENDING_PAYMENT, stock is still 50 and reservedStock still 3.
\<close>

theorem pay_success_branch_fails_validation:
  "findById (orders shopPending) 0 = Some aliceOrder
   \<and> userId aliceOrder = user_id alice
   \<and> status aliceOrder = PENDING_PAYMENT \<and> \<not> 2000 > expiresAt aliceOrder
   \<and> pay True alice 0 2000 True 2000 shopPending
       = (Inl (ValidationError [''transactionId'']), shopPending)
   \<and> pay False alice 0 2000 True 2000 shopPending
       = (Inl (ValidationError [''transactionId'']), shopPending)
   \<and> payments shopPending = []
   \<and> map status (orders shopPending) = [PENDING_PAYMENT]
   \<and> map_option stock (products shopPending 7) = Some 50
   \<and> map_option reservedStock (products shopPending 7) = Some 3"
proof -
  have cb: "payCallback rs alice 0 2000 True 2000 None shopPending
              = (Inl (ValidationError [''transactionId'']), shopPending)" for rs
    by (simp add: payCallback_def sessionRejected_def findById_def isExpired_def
                  savePayment_def paymentValidationErrors_def requiredPath_def
                  shopPending_def aliceOrder_def alice_def)
  have cbs: "payCallback True alice 0 2000 True 2000 (Some Session) shopPending
              = (Inl (ValidationError [''transactionId'']), shopPending)"
    by (simp add: payCallback_def sessionRejected_def findById_def isExpired_def
                  savePayment_def paymentValidationErrors_def requiredPath_def
                  shopPending_def aliceOrder_def alice_def)
  have t: "pay True alice 0 2000 True 2000 shopPending
       = (Inl (ValidationError [''transactionId'']), shopPending)"
    by (simp add: pay_with_transactions cbs abortTransaction_same)
  have f: "pay False alice 0 2000 True 2000 shopPending
       = (Inl (ValidationError [''transactionId'']), shopPending)"
    by (simp add: pay_without_transactions cb)
  have facts: "findById (orders shopPending) 0 = Some aliceOrder"
      "userId aliceOrder = user_id alice" "status aliceOrder = PENDING_PAYMENT"
      "\<not> 2000 > expiresAt aliceOrder" "payments shopPending = []"
      "map status (orders shopPending) = [PENDING_PAYMENT]"
      "map_option stock (products shopPending 7) = Some 50"
      "map_option reservedStock (products shopPending 7) = Some 3"
    by (simp_all add: findById_def shopPending_def aliceOrder_def alice_def widget_def)
  show ?thesis using t f facts by simp
qed

text \<open>
  Claim C4, at a concrete state. The order of \<open>shopPending\<close> awaits payment, is not
  expired at time 2000, and the simulator declines. Pay, with or without transaction
  support, fails with the validation error for the missing transaction id, not with the
  payment-failed error, and the payments collection is as empty as before: no FAILED
  attempt is retained. Order and products are unchanged.
\<close>

theorem declined_payment_attempt_not_recorded:
  "findById (orders shopPending) 0 = Some aliceOrder
   \<and> userId aliceOrder = user_id alice
   \<and> status aliceOrder = PENDING_PAYMENT \<and> \<not> 2000 > expiresAt aliceOrder
   \<and> payments shopPending = []
   \<and> pay True alice 0 2000 False 2000 shopPending
       = (Inl (ValidationError [''transactionId'']), shopPending)
   \<and> pay False alice 0 2000 False 2000 shopPending
       = (Inl (ValidationError [''transactionId'']), shopPending)"
proof -
  have cb: "payCallback rs alice 0 2000 False 2000 None shopPending
              = (Inl (ValidationError [''transactionId'']), shopPending)" for rs
    by (simp add: payCallback_def sessionRejected_def findById_def isExpired_def
                  savePayment_def paymentValidationErrors_def requiredPath_def
                  failedPaymentReason_def shopPending_def aliceOrder_def alice_def)
  have cbs: "payCallback True alice 0 2000 False 2000 (Some Session) shopPending
              = (Inl (ValidationError [''transactionId'']), shopPending)"
    by (simp add: payCallback_def sessionRejected_def findById_def isExpired_def
                  savePayment_def paymentValidationErrors_def requiredPath_def
                  failedPaymentReason_def shopPending_def aliceOrder_def alice_def)
  have t: "pay True alice 0 2000 False 2000 shopPending
       = (Inl (ValidationError [''transactionId'']), shopPending)"
    by (simp add: pay_with_transactions cbs abortTransaction_same)
  have f: "pay False alice 0 2000 False 2000 shopPending
       = (Inl (ValidationError [''transactionId'']), shopPending)"
    by (simp add: pay_without_transactions cb)
  have facts: "findById (orders shopPending) 0 = Some aliceOrder"
      "userId aliceOrder = user_id alice" "status aliceOrder = PENDING_PAYMENT"
      "\<not> 2000 > expiresAt aliceOrder" "payments shopPending = []"
    by (simp_all add: findById_def shopPending_def aliceOrder_def alice_def)
  show ?thesis using t f facts by simp
qed

text \<open>
  Claim C5, at a concrete state. The order of the example shop is pending and its
  expiry time has passed. With transaction support pay fails with the order-expired
  error and the database is exactly as before: the order is still PENDING_PAYMENT and the
  3 reserved units are still reserved, because the error aborts the transaction that held
  the cancellation and the release. Without transaction support the same call leaves the
  order CANCELLED and the reservation released.
\<close>

theorem expired_order_cancellation_rolled_back:
  "status aliceOrder = PENDING_PAYMENT \<and> 1000000 > expiresAt aliceOrder
   \<and> pay True alice 0 1000000 True 1000000 shopPending
     = (Inl (AppError OrderHasExpiredAndBeenCancelled 400), shopPending)
   \<and> map status (orders shopPending) = [PENDING_PAYMENT]
   \<and> map_option reservedStock (products shopPending 7) = Some 3
   \<and> pay False alice 0 1000000 True 1000000 shopPending
     = (Inl (AppError OrderHasExpiredAndBeenCancelled 400), shopCancelled)
   \<and> map status (orders shopCancelled) = [CANCELLED]
   \<and> map_option reservedStock (products shopCancelled 7) = Some 0"
proof -
  have h: "findById (orders shopPending) 0 = Some aliceOrder" "userId aliceOrder = user_id alice"
      "status aliceOrder = PENDING_PAYMENT" "1000000 > expiresAt aliceOrder"
    by (simp_all add: findById_def shopPending_def aliceOrder_def alice_def)
  have c: "shopPending\<lparr>orders := (orders shopPending)[0 := aliceOrder\<lparr>status := CANCELLED\<rparr>],
             products := releaseAll (items aliceOrder) (products shopPending)\<rparr> = shopCancelled"
    by (simp add: shopPending_def shopCancelled_def aliceOrder_def incProduct_def widget_def)
  have v: "map status (orders shopPending) = [PENDING_PAYMENT]"
      "map_option reservedStock (products shopPending 7) = Some 3"
      "map status (orders shopCancelled) = [CANCELLED]"
      "map_option reservedStock (products shopCancelled 7) = Some 0"
    by (simp_all add: shopPending_def shopCancelled_def aliceOrder_def widget_def)
  show ?thesis
    using h(3,4) pay_expired_with_transactions [OF h, of True 1000000]
          pay_expired_without_transactions [OF h, of True 1000000]
    by (simp add: c v)
qed

section \<open>Expiration sweep\<close>

lemma cancelExpired_eq:
  "cancelExpired rs doc d =
     d\<lparr>orders := saveStatus (fst doc) CANCELLED (orders d),
       products := releaseAll (items (snd doc)) (products d)\<rparr>"
proof (cases rs)
  case True
  then show ?thesis
    by (simp add: cancelExpired_def runWithTransaction_def cancelCallback_def
                  sessionRejected_def Let_def)
next
  case False
  then show ?thesis
    by (simp add: cancelExpired_def runWithTransaction_def cancelCallback_def
                  sessionRejected_def Let_def abortTransaction_same)
qed

text \<open>
  Claim C8, at concrete states. A release is a plain decrement with no floor and no
  report. Releasing a line of 3 units from a product that has 2 reserved leaves
  reservedStock at -1. In the shop whose order has already been cancelled and released
  (reservedStock 0), the sweeper's transaction on the order document it read earlier
  completes without error and leaves reservedStock at -3.
\<close>

theorem release_beyond_reserved_goes_negative:
  "map_option reservedStock
     (releaseAll [\<lparr>oi_productId = 7, oi_quantity = 3, priceAtPurchase = 10,
                   productName = ''Widget''\<rparr>]
                 [7 \<mapsto> \<lparr>name = ''Widget'', price = 10, stock = 50, reservedStock = 2,
                         isActive = True\<rparr>] 7) = Some (- 1)
   \<and> map_option reservedStock (products shopCancelled 7) = Some 0
   \<and> runWithTransaction (cancelCallback False (0, aliceOrder)) shopCancelled
       = (Inr (), shopCancelled\<lparr>products := [7 \<mapsto> widget\<lparr>reservedStock := - 3\<rparr>]\<rparr>)"
  by (simp add: incProduct_def runWithTransaction_def cancelCallback_def sessionRejected_def
                shopCancelled_def aliceOrder_def widget_def saveStatus_def Let_def
                abortTransaction_def)

text \<open>
  Claim C9, at a concrete interleaving on a server without transaction support. The
  sweeper's query returns the expired pending order of \<open>shopPending\<close> (3 units
  reserved). The pay attempt then cancels the order and releases the 3 units. The
  sweeper goes on with the document it read: its status write goes through although the
  order is no longer PENDING_PAYMENT, and its release takes the 3 units off a second
  time, leaving reservedStock at -3. Both perform the transition and the release.
\<close>

theorem sweep_and_pay_race_releases_twice:
  "findExpired (orders shopPending) 1000000 = [(0, aliceOrder)]
   \<and> map_option reservedStock (products shopPending 7) = Some 3
   \<and> pay False alice 0 1000000 True 1000000 shopPending
       = (Inl (AppError OrderHasExpiredAndBeenCancelled 400), shopCancelled)
   \<and> map status (orders shopCancelled) = [CANCELLED]
   \<and> map_option reservedStock (products shopCancelled 7) = Some 0
   \<and> map status (orders (cancelExpired False (0, aliceOrder) shopCancelled)) = [CANCELLED]
   \<and> map_option reservedStock (products (cancelExpired False (0, aliceOrder) shopCancelled) 7)
       = Some (- 3)"
proof -
  have f: "findExpired (orders shopPending) 1000000 = [(0, aliceOrder)]"
    by (simp add: findExpired_def shopPending_def aliceOrder_def)
  have h: "findById (orders shopPending) 0 = Some aliceOrder" "userId aliceOrder = user_id alice"
      "status aliceOrder = PENDING_PAYMENT" "1000000 > expiresAt aliceOrder"
    by (simp_all add: findById_def shopPending_def aliceOrder_def alice_def)
  have c: "shopPending\<lparr>orders := (orders shopPending)[0 := aliceOrder\<lparr>status := CANCELLED\<rparr>],
             products := releaseAll (items aliceOrder) (products shopPending)\<rparr> = shopCancelled"
    by (simp add: shopPending_def shopCancelled_def aliceOrder_def incProduct_def widget_def)
  have p: "pay False alice 0 1000000 True 1000000 shopPending
       = (Inl (AppError OrderHasExpiredAndBeenCancelled 400), shopCancelled)"
    using pay_expired_without_transactions [OF h, of True 1000000] by (simp add: c)
  have v: "map_option reservedStock (products shopPending 7) = Some 3"
      "map status (orders shopCancelled) = [CANCELLED]"
      "map_option reservedStock (products shopCancelled 7) = Some 0"
    by (simp_all add: shopPending_def shopCancelled_def aliceOrder_def widget_def)
  have s: "map status (orders (cancelExpired False (0, aliceOrder) shopCancelled)) = [CANCELLED]"
      "map_option reservedStock (products (cancelExpired False (0, aliceOrder) shopCancelled) 7)
       = Some (- 3)"
    by (simp_all add: cancelExpired_eq shopCancelled_def aliceOrder_def widget_def
                      saveStatus_def incProduct_def)
  show ?thesis using f p v s by simp
qed

text \<open>
  Claim C1, at concrete states. In \<open>shopUncovered\<close> the product has stock 50 and
  reservedStock 0, so \<open>0 \<le> reservedStock \<le> stock\<close> holds; one sweep at a time when the
  pending order has expired leaves reservedStock at -3, with or without transaction
  support. Starting from \<open>shopPending\<close>, where the 3 reserved units are those of the
  pending order, a sweep whose query is followed by a pay attempt before its loop runs
  ends at -3 as well on a server without transaction support.
\<close>

theorem sweep_breaks_inventory_invariant:
  "map_option reservedStock (products shopUncovered 7) = Some 0
   \<and> map_option stock (products shopUncovered 7) = Some 50
   \<and> map_option reservedStock (products (sweep True 1000000 shopUncovered) 7) = Some (- 3)
   \<and> map_option reservedStock (products (sweep False 1000000 shopUncovered) 7) = Some (- 3)
   \<and> map_option reservedStock (products shopPending 7) = Some 3
   \<and> map_option stock (products shopPending 7) = Some 50
   \<and> map_option reservedStock
        (products (fold (cancelExpired False) (findExpired (orders shopPending) 1000000)
                        (snd (pay False alice 0 1000000 True 1000000 shopPending))) 7)
       = Some (- 3)"
proof -
  have q: "findExpired (orders shopUncovered) 1000000 = [(0, aliceOrder)]"
      "findExpired (orders shopPending) 1000000 = [(0, aliceOrder)]"
    by (simp_all add: findExpired_def shopUncovered_def shopPending_def aliceOrder_def)
  have s: "map_option reservedStock (products (sweep rs 1000000 shopUncovered) 7) = Some (- 3)"
    for rs
    by (simp add: sweep_def q cancelExpired_eq)
       (simp add: shopUncovered_def aliceOrder_def widget_def incProduct_def)
  have h: "findById (orders shopPending) 0 = Some aliceOrder" "userId aliceOrder = user_id alice"
      "status aliceOrder = PENDING_PAYMENT" "1000000 > expiresAt aliceOrder"
    by (simp_all add: findById_def shopPending_def aliceOrder_def alice_def)
  have c: "shopPending\<lparr>orders := (orders shopPending)[0 := aliceOrder\<lparr>status := CANCELLED\<rparr>],
             products := releaseAll (items aliceOrder) (products shopPending)\<rparr> = shopCancelled"
    by (simp add: shopPending_def shopCancelled_def aliceOrder_def incProduct_def widget_def)
  have p: "snd (pay False alice 0 1000000 True 1000000 shopPending) = shopCancelled"
    using pay_expired_without_transactions [OF h, of True 1000000] by (simp add: c)
  have r: "map_option reservedStock
        (products (fold (cancelExpired False) (findExpired (orders shopPending) 1000000)
                        (snd (pay False alice 0 1000000 True 1000000 shopPending))) 7)
       = Some (- 3)"
    by (simp add: q p cancelExpired_eq)
       (simp add: shopCancelled_def aliceOrder_def widget_def incProduct_def)
  have facts: "map_option reservedStock (products shopUncovered 7) = Some 0"
      "map_option stock (products shopUncovered 7) = Some 50"
      "map_option reservedStock (products shopPending 7) = Some 3"
      "map_option stock (products shopPending 7) = Some 50"
    by (simp_all add: shopUncovered_def shopPending_def widget_def)
  show ?thesis using s r facts by simp
qed

end
